theory Spec2Isabelle
  imports Main "HOL-Library.Word"
begin

section \<open>Data model of the Morpha bootstrap runtime (morpha.h)\<close>

text \<open>
  The header fixes the storage unit \<open>MPH_raw\<close> as \<open>uint64_t\<close>.  Sizes and offsets are
  \<open>size_t\<close>, and the payload of a result is a \<open>void*\<close> that carries a \<open>size_t\<close>; both
  are taken as 64-bit words (an LP64 target).  Pointers to \<open>MPH_raw\<close> are word-granular
  addresses into one memory, so that "the arena contents" is the memory itself.
\<close>

type_synonym MPH_raw = "64 word"
type_synonym size_t = "64 word"
type_synonym addr = "64 word"

datatype MPH_result_kind = MPH_OK | MPH_HALT | MPH_TOTALITY_FAULT | MPH_MEM_LOW

record MPH_result =
  t :: MPH_result_kind
  data :: size_t

record MPH_runtime =
  raw :: addr
  raw_size :: size_t
  pos :: size_t

datatype MPH_op = MPH_OP_SUB | MPH_OP_ADD | MPH_OP_CMP | MPH_OP_JMP | MPH_OP_OFFSET

record MPH_cell =
  size_c :: size_t
  offsets :: addr

record MPH_morph =
  op :: MPH_op
  args :: size_t

record MPH_rule =
  conds :: addr
  morphs :: addr
  len :: size_t

text \<open>
  Every function of morpha.c receives the runtime through a pointer and may write both the
  \<open>MPH_runtime\<close> struct and the memory its \<open>raw\<close> field points to.  The model passes
  both explicitly.  The field \<open>step_calls\<close> is a ghost counter, not a program variable:
  it is incremented once per invocation of \<open>MPH_rt_step\<close> and by nothing else, so that
  statements about the number of steps taken can be written down.
\<close>

record state =
  heap :: "addr \<Rightarrow> MPH_raw"
  rt :: MPH_runtime
  step_calls :: nat


section \<open>The runtime functions (morpha.c)\<close>

text \<open>
  \<open>MPH_rt_init\<close>: \<open>memset(rt, 0, sizeof(MPH_runtime))\<close> clears all three fields, then
  \<open>raw\<close> and \<open>raw_size\<close> are assigned.  The function returns \<open>void\<close> and has no
  failing path.  The memory behind \<open>raw\<close> is not touched.
\<close>

definition MPH_rt_init :: "state \<Rightarrow> addr \<Rightarrow> size_t \<Rightarrow> state" where
  "MPH_rt_init s raw_arg raw_size_arg =
     (let cleared = \<lparr>raw = 0, raw_size = 0, pos = 0\<rparr>
      in s\<lparr>rt := cleared\<lparr>raw := raw_arg, raw_size := raw_size_arg\<rparr>\<rparr>)"

text \<open>
  \<open>MPH_rt_cell\<close> and \<open>MPH_rt_morph\<close> have the same body: they store
  \<open>MPH_TOTALITY_FAULT\<close> into \<open>ret->t\<close> and return \<open>ret\<close>.  Neither reads its
  descriptor argument, and neither writes \<open>ret->data\<close>.
\<close>

definition MPH_rt_cell :: "state \<Rightarrow> MPH_cell \<Rightarrow> MPH_result \<Rightarrow> state \<times> MPH_result" where
  "MPH_rt_cell s c ret = (s, ret\<lparr>t := MPH_TOTALITY_FAULT\<rparr>)"

definition MPH_rt_morph :: "state \<Rightarrow> MPH_morph \<Rightarrow> MPH_result \<Rightarrow> state \<times> MPH_result" where
  "MPH_rt_morph s m ret = (s, ret\<lparr>t := MPH_TOTALITY_FAULT\<rparr>)"

text \<open>
  The loop of \<open>MPH_rt_rule\<close>:
  \<^verbatim>\<open>int i = 0; for (i = 0; i < rule->len; i++) { rt->pos += 0; }\<close>
  The counter is a (32-bit) \<open>int\<close> and the bound a \<open>size_t\<close>, so the comparison
  converts \<open>i\<close> to \<open>size_t\<close> (sign extension, \<open>scast\<close>).  Incrementing \<open>i\<close> at
  \<open>INT_MAX\<close> is signed overflow, which C leaves undefined: the model returns \<open>None\<close>
  there.  The argument \<open>n\<close> is \<open>rule->len\<close>.
\<close>

function MPH_rt_rule_loop :: "size_t \<Rightarrow> 32 word \<Rightarrow> state \<Rightarrow> state option" where
  "MPH_rt_rule_loop n i s =
     (if (scast i :: size_t) < n
      then (let s' = s\<lparr>rt := (rt s)\<lparr>pos := pos (rt s) + 0\<rparr>\<rparr>
            in if i = 0x7FFFFFFF then None else MPH_rt_rule_loop n (i + 1) s')
      else Some s)"
  by pat_completeness auto
termination
proof (relation "measure (\<lambda>(n, i, s). unat (0x7FFFFFFF - i))")
  show "wf (measure (\<lambda>(n :: size_t, i :: 32 word, s :: state). unat (0x7FFFFFFF - i)))"
    by simp
next
  fix n :: size_t and i :: "32 word" and s x :: state
  assume ne: "i \<noteq> 0x7FFFFFFF"
  define w where "w = 0x7FFFFFFF - i"
  have nz: "w \<noteq> 0"
    using ne by (simp add: w_def)
  have eq: "0x7FFFFFFF - (i + 1) = w - 1"
    by (simp add: w_def)
  have "unat (w - 1) = unat w - 1"
    using nz by (rule unat_minus_one)
  moreover have "unat w \<noteq> 0"
    using nz by (simp add: unat_eq_zero)
  ultimately have "unat (w - 1) < unat w"
    by simp
  then have "unat (0x7FFFFFFF - (i + 1)) < unat (0x7FFFFFFF - i)"
    by (simp only: eq) (simp only: w_def)
  then show "((n, i + 1, x), (n, i, s)) \<in> measure (\<lambda>(n, i, s). unat (0x7FFFFFFF - i))"
    by simp
qed

declare MPH_rt_rule_loop.simps [simp del]

text \<open>
  \<open>MPH_rt_rule\<close> first stores the current position into \<open>ret->data\<close> and \<open>MPH_OK\<close>
  into \<open>ret->t\<close>, runs the loop, and then overwrites \<open>ret->t\<close> with
  \<open>MPH_TOTALITY_FAULT\<close> before it returns.
\<close>

definition MPH_rt_rule :: "state \<Rightarrow> MPH_rule \<Rightarrow> MPH_result \<Rightarrow> (state \<times> MPH_result) option" where
  "MPH_rt_rule s rule ret =
     (let ret1 = ret\<lparr>data := pos (rt s)\<rparr>;
          ret2 = ret1\<lparr>t := MPH_OK\<rparr>
      in case MPH_rt_rule_loop (len rule) 0 s of
           None \<Rightarrow> None
         | Some s' \<Rightarrow> Some (s', ret2\<lparr>t := MPH_TOTALITY_FAULT\<rparr>))"

text \<open>
  \<open>MPH_rt_step\<close> and \<open>MPH_rt_exec\<close> both store \<open>MPH_HALT\<close> into \<open>ret->t\<close> and
  return.  \<open>MPH_rt_exec\<close> contains no call of \<open>MPH_rt_step\<close> and no loop.
\<close>

definition MPH_rt_step :: "state \<Rightarrow> MPH_result \<Rightarrow> state \<times> MPH_result" where
  "MPH_rt_step s ret = (s\<lparr>step_calls := Suc (step_calls s)\<rparr>, ret\<lparr>t := MPH_HALT\<rparr>)"

definition MPH_rt_exec :: "state \<Rightarrow> MPH_result \<Rightarrow> state \<times> MPH_result" where
  "MPH_rt_exec s ret = (s, ret\<lparr>t := MPH_HALT\<rparr>)"


section \<open>Operator arities and the scenario of the test driver\<close>

text \<open>
  Modelled from the spec: the fixed arity of each operator.  morpha.c has no arity table;
  the header only remarks that \<open>MPH_OP_OFFSET\<close> consumes the one value that follows it
  and \<open>MPH_OP_ADD\<close> the following two.  The spec gives two operands to ADD, SUB and CMP
  and a single operand to JMP and OFFSET.
\<close>

definition arity :: "MPH_op \<Rightarrow> nat" where
  "arity k = (case k of
       MPH_OP_SUB \<Rightarrow> 2
     | MPH_OP_ADD \<Rightarrow> 2
     | MPH_OP_CMP \<Rightarrow> 2
     | MPH_OP_JMP \<Rightarrow> 1
     | MPH_OP_OFFSET \<Rightarrow> 1)"

text \<open>The numeric value of an \<open>MPH_op\<close> enumerator, as stored in an \<open>MPH_raw\<close> array.\<close>

definition op_word :: "MPH_op \<Rightarrow> MPH_raw" where
  "op_word k = (case k of
       MPH_OP_SUB \<Rightarrow> 0
     | MPH_OP_ADD \<Rightarrow> 1
     | MPH_OP_CMP \<Rightarrow> 2
     | MPH_OP_JMP \<Rightarrow> 3
     | MPH_OP_OFFSET \<Rightarrow> 4)"

definition MPH_DEFAULT_BLOCK :: size_t where
  "MPH_DEFAULT_BLOCK = 0x200"

text \<open>
  \<open>main\<close> of main_test.c: a block \<open>mem\<close> of \<open>MPH_DEFAULT_BLOCK\<close> words, a runtime
  \<open>r\<close>, and a result \<open>ret\<close> cleared by \<open>memset\<close> (so its kind is the enumerator with
  value 0, \<open>MPH_OK\<close>).  \<open>test_rt_rule\<close> builds the rule
  \<^verbatim>\<open>(MPH_rule){ (MPH_raw[]){ MPH_OP_ADD }, (MPH_raw[]){ MPH_OP_ADD }, 1 }\<close>.
  The addresses of \<open>mem\<close> and of the two one-element arrays are fixed here to concrete,
  disjoint values; no function of morpha.c reads or writes through them.
\<close>

definition test_mem :: addr where
  "test_mem = 0x1000"

definition test_heap :: "addr \<Rightarrow> MPH_raw" where
  "test_heap = (\<lambda>a. 0)(0x2000 := op_word MPH_OP_ADD, 0x2001 := op_word MPH_OP_ADD)"

definition test_start :: state where
  "test_start = \<lparr>heap = test_heap, rt = \<lparr>raw = 0, raw_size = 0, pos = 0\<rparr>, step_calls = 0\<rparr>"

definition test_ret :: MPH_result where
  "test_ret = \<lparr>t = MPH_OK, data = 0\<rparr>"

definition test_runtime :: state where
  "test_runtime = MPH_rt_init test_start test_mem MPH_DEFAULT_BLOCK"

definition test_rule_add :: MPH_rule where
  "test_rule_add = \<lparr>conds = 0x2000, morphs = 0x2001, len = 1\<rparr>"

text \<open>The ADD morph of the header's usage example, with an operand count of two.\<close>

definition test_morph_add :: MPH_morph where
  "test_morph_add = \<lparr>op = MPH_OP_ADD, args = 2\<rparr>"

text \<open>A runtime over a backing store of a single word: \<open>MPH_rt_init(&r, mem, 1)\<close>.\<close>

definition small_runtime :: state where
  "small_runtime = MPH_rt_init test_start test_mem 1"

section \<open>The loop of \<open>MPH_rt_rule\<close>\<close>

lemma pos_add_zero: "s\<lparr>rt := (rt s)\<lparr>pos := pos (rt s) + 0\<rparr>\<rparr> = s"
  by simp

text \<open>Whenever the loop returns, it returns the state it was given.\<close>

lemma MPH_rt_rule_loop_frame: "MPH_rt_rule_loop n i s = Some s' \<Longrightarrow> s' = s"
proof (induction n i s rule: MPH_rt_rule_loop.induct)
  case (1 n i s)
  show ?case
  proof (cases "(scast i :: size_t) < n")
    case True
    with "1.prems" have ne: "i \<noteq> 0x7FFFFFFF"
      by (subst (asm) MPH_rt_rule_loop.simps) (auto simp: Let_def split: if_splits)
    from True ne "1.prems" have "MPH_rt_rule_loop n (i + 1) s = Some s'"
      by (subst (asm) MPH_rt_rule_loop.simps) (simp add: Let_def)
    with "1.IH" [OF True refl ne] show ?thesis
      by simp
  next
    case False
    with "1.prems" show ?thesis
      by (subst (asm) MPH_rt_rule_loop.simps) simp
  qed
qed

text \<open>
  For a length that an \<open>int\<close> can hold, the counter never overflows and the loop returns.
\<close>

lemma MPH_rt_rule_loop_total:
  "n \<le> 0x7FFFFFFF \<Longrightarrow> i \<le> 0x7FFFFFFF \<Longrightarrow> MPH_rt_rule_loop n i s = Some s"
proof (induction n i s rule: MPH_rt_rule_loop.induct)
  case (1 n i s)
  show ?case
  proof (cases "(scast i :: size_t) < n")
    case True
    have ne: "i \<noteq> 0x7FFFFFFF"
    proof
      assume "i = 0x7FFFFFFF"
      with True have "(0x7FFFFFFF :: size_t) < n" by simp
      with "1.prems"(1) show False by simp
    qed
    with "1.prems"(2) have "i < 0x7FFFFFFF" by simp
    then have "i + 1 \<le> 0x7FFFFFFF" by (rule inc_le)
    with "1.IH" [OF True refl ne "1.prems"(1)]
    have "MPH_rt_rule_loop n (i + 1) s = Some s" by simp
    with True ne show ?thesis
      by (subst MPH_rt_rule_loop.simps) (simp add: Let_def)
  next
    case False
    then show ?thesis
      by (subst MPH_rt_rule_loop.simps) simp
  qed
qed

text \<open>Past \<open>INT_MAX\<close> iterations the increment of the counter is undefined.\<close>

lemma MPH_rt_rule_loop_overflow:
  "MPH_rt_rule_loop 0x80000000 0x7FFFFFFF s = None"
  by (subst MPH_rt_rule_loop.simps) (simp add: Let_def)

lemma MPH_rt_rule_returns:
  "len r \<le> 0x7FFFFFFF \<Longrightarrow>
   MPH_rt_rule s r ret = Some (s, ret\<lparr>data := pos (rt s), t := MPH_TOTALITY_FAULT\<rparr>)"
  by (simp add: MPH_rt_rule_def MPH_rt_rule_loop_total)

lemma MPH_rt_rule_result:
  assumes "MPH_rt_rule s r ret = Some (s', ret')"
  shows "s' = s" and "ret' = ret\<lparr>data := pos (rt s), t := MPH_TOTALITY_FAULT\<rparr>"
proof -
  from assms obtain s1 where l: "MPH_rt_rule_loop (len r) 0 s = Some s1"
    and r: "s' = s1" "ret' = ret\<lparr>data := pos (rt s), t := MPH_TOTALITY_FAULT\<rparr>"
    by (auto simp: MPH_rt_rule_def Let_def split: option.splits)
  from l have "s1 = s" by (rule MPH_rt_rule_loop_frame)
  with r show "s' = s" and "ret' = ret\<lparr>data := pos (rt s), t := MPH_TOTALITY_FAULT\<rparr>"
    by simp_all
qed


section \<open>Initialisation\<close>

text \<open>
  C8.  For every backing store and every capacity \<open>C > 0\<close>, \<open>MPH_rt_init\<close> (a total
  function with no failure outcome) yields a runtime whose \<open>pos\<close> is 0, whose \<open>raw\<close>
  pointer is the given store and whose \<open>raw_size\<close> is exactly \<open>C\<close>, whatever the
  runtime struct held before.  The memory behind the store is left as it was.
\<close>

theorem MPH_rt_init_fields:
  "0 < C \<Longrightarrow>
   pos (rt (MPH_rt_init s store C)) = 0 \<and>
   raw (rt (MPH_rt_init s store C)) = store \<and>
   raw_size (rt (MPH_rt_init s store C)) = C \<and>
   heap (MPH_rt_init s store C) = heap s"
  by (simp add: MPH_rt_init_def)

theorem MPH_rt_init_fields_witness:
  "(0 :: size_t) < MPH_DEFAULT_BLOCK \<and>
   pos (rt test_runtime) = 0 \<and>
   raw (rt test_runtime) = test_mem \<and>
   raw_size (rt test_runtime) = 0x200 \<and>
   heap test_runtime = test_heap"
proof -
  have h: "(0 :: size_t) < MPH_DEFAULT_BLOCK"
    by (simp add: MPH_DEFAULT_BLOCK_def)
  from MPH_rt_init_fields [OF h, of test_start test_mem] h show ?thesis
    by (simp add: test_runtime_def MPH_DEFAULT_BLOCK_def test_start_def)
qed

section \<open>Stepping and running\<close>

text \<open>
  C9.  For every runtime state, \<open>MPH_rt_step\<close> and \<open>MPH_rt_exec\<close> both return a result
  of kind \<open>MPH_HALT\<close> (hence never OK, MEM_LOW or TOTALITY_FAULT), and leave every field
  of the runtime (\<open>raw\<close>, \<open>raw_size\<close>, \<open>pos\<close>), the whole memory and the payload of
  the result unchanged.
\<close>

theorem MPH_rt_step_exec_halt:
  "t (snd (MPH_rt_step s ret)) = MPH_HALT \<and>
   data (snd (MPH_rt_step s ret)) = data ret \<and>
   rt (fst (MPH_rt_step s ret)) = rt s \<and>
   heap (fst (MPH_rt_step s ret)) = heap s \<and>
   t (snd (MPH_rt_exec s ret)) = MPH_HALT \<and>
   data (snd (MPH_rt_exec s ret)) = data ret \<and>
   rt (fst (MPH_rt_exec s ret)) = rt s \<and>
   heap (fst (MPH_rt_exec s ret)) = heap s"
  by (simp add: MPH_rt_step_def MPH_rt_exec_def)

text \<open>
  C1.  \<open>MPH_rt_exec\<close> is a total function: on every runtime state, in particular on one
  whose \<open>pos\<close> is set to a well-formed composition, it returns, and the kind of its result
  is \<open>MPH_HALT\<close> or \<open>MPH_MEM_LOW\<close>.  It invokes \<open>MPH_rt_step\<close> zero times (the ghost
  counter is the same afterwards), so the number of steps stays below every bound \<open>n\<close>,
  the encoded size of the composition included.
\<close>

theorem MPH_rt_exec_terminal_bounded:
  "(t (snd (MPH_rt_exec s ret)) = MPH_HALT \<or> t (snd (MPH_rt_exec s ret)) = MPH_MEM_LOW) \<and>
   step_calls (fst (MPH_rt_exec s ret)) = step_calls s \<and>
   step_calls (fst (MPH_rt_exec s ret)) \<le> step_calls s + n"
  by (simp add: MPH_rt_exec_def)

section \<open>Cells\<close>

text \<open>
  C10.  For every runtime and every cell descriptor, \<open>MPH_rt_cell\<close> returns a result of
  kind \<open>MPH_TOTALITY_FAULT\<close> whose payload is the one the caller passed in, and the
  runtime (memory, \<open>raw\<close>, \<open>raw_size\<close>, \<open>pos\<close>) is the same afterwards: no cell is
  written to the arena.
\<close>

theorem MPH_rt_cell_fault:
  "t (snd (MPH_rt_cell s c ret)) = MPH_TOTALITY_FAULT \<and>
   data (snd (MPH_rt_cell s c ret)) = data ret \<and>
   fst (MPH_rt_cell s c ret) = s"
  by (simp add: MPH_rt_cell_def)

section \<open>Morphs\<close>

text \<open>
  C4.  For every operator and every operand count \<open>args\<close> that differs from the
  operator's fixed arity, \<open>MPH_rt_morph\<close> returns \<open>MPH_TOTALITY_FAULT\<close>, leaves the
  memory unchanged and does not move \<open>pos\<close> (nor any other field of the runtime).
  An \<open>MPH_morph\<close> carries its operands as the single field \<open>args\<close>, read here as
  their count.
\<close>

theorem MPH_rt_morph_arity_mismatch:
  "unat (args m) \<noteq> arity (op m) \<Longrightarrow>
   t (snd (MPH_rt_morph s m ret)) = MPH_TOTALITY_FAULT \<and>
   heap (fst (MPH_rt_morph s m ret)) = heap s \<and>
   pos (rt (fst (MPH_rt_morph s m ret))) = pos (rt s) \<and>
   rt (fst (MPH_rt_morph s m ret)) = rt s"
  by (simp add: MPH_rt_morph_def)

theorem MPH_rt_morph_arity_mismatch_witness:
  "unat (args \<lparr>op = MPH_OP_JMP, args = 2\<rparr>) \<noteq> arity (op \<lparr>op = MPH_OP_JMP, args = 2\<rparr>) \<and>
   t (snd (MPH_rt_morph test_runtime \<lparr>op = MPH_OP_JMP, args = 2\<rparr> test_ret)) = MPH_TOTALITY_FAULT \<and>
   heap (fst (MPH_rt_morph test_runtime \<lparr>op = MPH_OP_JMP, args = 2\<rparr> test_ret)) = test_heap \<and>
   pos (rt (fst (MPH_rt_morph test_runtime \<lparr>op = MPH_OP_JMP, args = 2\<rparr> test_ret))) = 0"
proof -
  have h: "unat (args \<lparr>op = MPH_OP_JMP, args = 2\<rparr>) \<noteq> arity (op \<lparr>op = MPH_OP_JMP, args = 2\<rparr>)"
    by (simp add: arity_def)
  from MPH_rt_morph_arity_mismatch [OF h, of test_runtime test_ret] h show ?thesis
    by (simp add: test_runtime_def MPH_rt_init_def test_start_def)
qed



text \<open>
  C2.  The claim asks for some runtime on which encoding an ADD morph returns OK with the
  morph's offset, and on which a step from that offset returns OK with the offset of a new
  cell holding 5.  On every runtime, for every operand field and every result struct,
  \<open>MPH_rt_morph\<close> applied to an ADD morph returns \<open>MPH_TOTALITY_FAULT\<close> and leaves the
  payload untouched; the following \<open>MPH_rt_step\<close>, entered as the header's example does
  with \<open>rt.pos = ret.data\<close>, returns \<open>MPH_HALT\<close>, and the memory is the same as before
  both calls: no morph and no result cell are written.
\<close>

theorem MPH_rt_morph_add_then_step:
  "(let (s1, r1) = MPH_rt_morph s \<lparr>op = MPH_OP_ADD, args = a\<rparr> ret;
        (s2, r2) = MPH_rt_step (s1\<lparr>rt := (rt s1)\<lparr>pos := data r1\<rparr>\<rparr>) r1
    in t r1 = MPH_TOTALITY_FAULT \<and> data r1 = data ret \<and> s1 = s \<and>
       t r2 = MPH_HALT \<and> data r2 = data ret \<and>
       heap s2 = heap s \<and> pos (rt s2) = data ret)"
  by (simp add: MPH_rt_morph_def MPH_rt_step_def)

section \<open>Rules\<close>

text \<open>
  C3.  The rule of \<open>test_rt_rule\<close> (one condition, one action, \<open>len = 1\<close>) on the freshly
  initialised runtime of 512 words, where the test expects \<open>MPH_OK\<close>: \<open>MPH_rt_rule\<close>
  returns, the kind of its result is \<open>MPH_TOTALITY_FAULT\<close>, the payload is the position 0,
  and the runtime is unchanged (nothing is serialised).
\<close>

theorem MPH_rt_rule_test_rule:
  "MPH_rt_rule test_runtime test_rule_add test_ret =
     Some (test_runtime, \<lparr>t = MPH_TOTALITY_FAULT, data = 0\<rparr>)"
proof -
  have "len test_rule_add \<le> 0x7FFFFFFF"
    by (simp add: test_rule_add_def)
  then have "MPH_rt_rule test_runtime test_rule_add test_ret =
      Some (test_runtime, test_ret\<lparr>data := pos (rt test_runtime), t := MPH_TOTALITY_FAULT\<rparr>)"
    by (rule MPH_rt_rule_returns)
  then show ?thesis
    by (simp add: test_ret_def test_runtime_def MPH_rt_init_def)
qed

text \<open>
  C5.  On a runtime whose backing store has a single word, the ADD morph (three words
  when encoded) and the test's rule both exceed the remaining capacity.  Neither call
  reports \<open>MPH_MEM_LOW\<close>: both return \<open>MPH_TOTALITY_FAULT\<close>; the payload is left at its
  old value by \<open>MPH_rt_morph\<close> and set to the position by \<open>MPH_rt_rule\<close>, in neither
  case the number of missing words.  The runtime is unchanged by both.
\<close>

theorem encode_without_capacity:
  "MPH_rt_morph small_runtime test_morph_add test_ret =
     (small_runtime, \<lparr>t = MPH_TOTALITY_FAULT, data = 0\<rparr>) \<and>
   MPH_rt_rule small_runtime test_rule_add test_ret =
     Some (small_runtime, \<lparr>t = MPH_TOTALITY_FAULT, data = 0\<rparr>) \<and>
   raw_size (rt small_runtime) - pos (rt small_runtime) = 1"
proof -
  have "len test_rule_add \<le> 0x7FFFFFFF"
    by (simp add: test_rule_add_def)
  then have "MPH_rt_rule small_runtime test_rule_add test_ret =
      Some (small_runtime, test_ret\<lparr>data := pos (rt small_runtime), t := MPH_TOTALITY_FAULT\<rparr>)"
    by (rule MPH_rt_rule_returns)
  then show ?thesis
    by (simp add: test_ret_def small_runtime_def MPH_rt_init_def MPH_rt_morph_def)
qed

text \<open>
  C7.  The test driver passes the payload of \<open>MPH_rt_rule\<close>'s result on as the offset at
  which the rule is to be stepped.  Stepping there returns \<open>MPH_HALT\<close> with the payload
  untouched, and memory and runtime are what they were before the rule was defined: no
  condition is evaluated and no action, paired or default, is executed.
\<close>

theorem MPH_rt_step_at_rule:
  "(case MPH_rt_rule test_runtime test_rule_add test_ret of
      None \<Rightarrow> False
    | Some (s1, r1) \<Rightarrow>
        (let (s2, r2) = MPH_rt_step (s1\<lparr>rt := (rt s1)\<lparr>pos := data r1\<rparr>\<rparr>) r1
         in t r1 = MPH_TOTALITY_FAULT \<and> t r2 = MPH_HALT \<and> data r2 = data r1 \<and>
            heap s2 = heap test_runtime \<and> rt s2 = rt test_runtime))"
proof -
  have "len test_rule_add \<le> 0x7FFFFFFF"
    by (simp add: test_rule_add_def)
  then have "MPH_rt_rule test_runtime test_rule_add test_ret =
      Some (test_runtime, test_ret\<lparr>data := pos (rt test_runtime), t := MPH_TOTALITY_FAULT\<rparr>)"
    by (rule MPH_rt_rule_returns)
  then show ?thesis
    by (simp add: MPH_rt_step_def test_runtime_def MPH_rt_init_def)
qed

section \<open>Failure is atomic\<close>

text \<open>
  C6.  Whenever \<open>MPH_rt_morph\<close>, \<open>MPH_rt_rule\<close> or \<open>MPH_rt_cell\<close> returns a result of
  kind \<open>MPH_TOTALITY_FAULT\<close> or \<open>MPH_MEM_LOW\<close>, the memory and the runtime struct
  (\<open>raw\<close>, \<open>raw_size\<close>, and \<open>pos\<close>, which is the only cursor the runtime has) are
  exactly what they were before the call.  \<open>MPH_rt_step\<close> leaves them unchanged whatever
  it returns, so in particular when it returns one of the two fault kinds.
\<close>

theorem failure_is_atomic:
  "(t (snd (MPH_rt_morph s m ret)) = MPH_TOTALITY_FAULT \<or>
    t (snd (MPH_rt_morph s m ret)) = MPH_MEM_LOW \<longrightarrow>
      heap (fst (MPH_rt_morph s m ret)) = heap s \<and> rt (fst (MPH_rt_morph s m ret)) = rt s) \<and>
   (\<forall>s' ret'. MPH_rt_rule s r ret = Some (s', ret') \<longrightarrow>
      (t ret' = MPH_TOTALITY_FAULT \<or> t ret' = MPH_MEM_LOW) \<longrightarrow>
      heap s' = heap s \<and> rt s' = rt s) \<and>
   (t (snd (MPH_rt_cell s c ret)) = MPH_TOTALITY_FAULT \<or>
    t (snd (MPH_rt_cell s c ret)) = MPH_MEM_LOW \<longrightarrow>
      heap (fst (MPH_rt_cell s c ret)) = heap s \<and> rt (fst (MPH_rt_cell s c ret)) = rt s) \<and>
   heap (fst (MPH_rt_step s ret)) = heap s \<and> rt (fst (MPH_rt_step s ret)) = rt s"
proof (intro conjI allI impI)
  fix s' ret'
  assume "MPH_rt_rule s r ret = Some (s', ret')"
  then have "s' = s"
    by (rule MPH_rt_rule_result(1))
  then show "heap s' = heap s" and "rt s' = rt s"
    by simp_all
qed (simp_all add: MPH_rt_morph_def MPH_rt_cell_def MPH_rt_step_def)

theorem failure_is_atomic_witness:
  "t (snd (MPH_rt_morph test_runtime test_morph_add test_ret)) = MPH_TOTALITY_FAULT \<and>
   heap (fst (MPH_rt_morph test_runtime test_morph_add test_ret)) = heap test_runtime \<and>
   rt (fst (MPH_rt_morph test_runtime test_morph_add test_ret)) = rt test_runtime \<and>
   MPH_rt_rule test_runtime test_rule_add test_ret =
     Some (test_runtime, \<lparr>t = MPH_TOTALITY_FAULT, data = 0\<rparr>) \<and>
   t \<lparr>t = MPH_TOTALITY_FAULT, data = 0\<rparr> = MPH_TOTALITY_FAULT \<and>
   t (snd (MPH_rt_cell test_runtime \<lparr>size_c = 0, offsets = 0\<rparr> test_ret)) = MPH_TOTALITY_FAULT \<and>
   heap (fst (MPH_rt_cell test_runtime \<lparr>size_c = 0, offsets = 0\<rparr> test_ret)) = heap test_runtime \<and>
   rt (fst (MPH_rt_cell test_runtime \<lparr>size_c = 0, offsets = 0\<rparr> test_ret)) = rt test_runtime \<and>
   heap (fst (MPH_rt_step test_runtime test_ret)) = heap test_runtime \<and>
   rt (fst (MPH_rt_step test_runtime test_ret)) = rt test_runtime"
proof -
  have m: "t (snd (MPH_rt_morph test_runtime test_morph_add test_ret)) = MPH_TOTALITY_FAULT"
    by (simp add: MPH_rt_morph_def)
  have c: "t (snd (MPH_rt_cell test_runtime \<lparr>size_c = 0, offsets = 0\<rparr> test_ret)) = MPH_TOTALITY_FAULT"
    by (simp add: MPH_rt_cell_def)
  have "len test_rule_add \<le> 0x7FFFFFFF"
    by (simp add: test_rule_add_def)
  then have "MPH_rt_rule test_runtime test_rule_add test_ret =
      Some (test_runtime, test_ret\<lparr>data := pos (rt test_runtime), t := MPH_TOTALITY_FAULT\<rparr>)"
    by (rule MPH_rt_rule_returns)
  then have r: "MPH_rt_rule test_runtime test_rule_add test_ret =
      Some (test_runtime, \<lparr>t = MPH_TOTALITY_FAULT, data = 0\<rparr>)"
    by (simp add: test_ret_def test_runtime_def MPH_rt_init_def)
  from failure_is_atomic [of test_runtime test_morph_add test_ret test_rule_add
      "\<lparr>size_c = 0, offsets = 0\<rparr>"] m c r
  show ?thesis
    by simp
qed

end
